theory Spec2Isabelle
  imports Complex_Main "HOL-Library.Sublist" "HOL-Library.Word"
begin

section \<open>Python strings\<close>

text \<open>
  A Python \<^verbatim>\<open>str\<close> is a sequence of Unicode code points; slicing and \<^verbatim>\<open>len\<close> count
  code points. A string is therefore a list of code points, and an ASCII literal of the
  source is written \<open>lit ''...''\<close>. Code points outside ASCII (the emoji of the labels and
  messages) are written as numbers.
\<close>

type_synonym pystr = "nat list"

definition lit :: "string \<Rightarrow> pystr" where
  "lit s = map of_char s"

text \<open>
  \<^verbatim>\<open>str.isspace\<close> per code point, which is what \<^verbatim>\<open>str.strip()\<close> removes at both ends:
  the ASCII controls 9 to 13 and 28 to 31, the space, and the Unicode separators.
\<close>

definition isspace :: "nat \<Rightarrow> bool" where
  "isspace c =
     ((9 \<le> c \<and> c \<le> 13) \<or> (28 \<le> c \<and> c \<le> 32) \<or> c = 133 \<or> c = 160 \<or> c = 5760 \<or>
      (8192 \<le> c \<and> c \<le> 8202) \<or> c = 8232 \<or> c = 8233 \<or> c = 8239 \<or> c = 8287 \<or>
      c = 12288)"

definition strip :: "pystr \<Rightarrow> pystr" where
  "strip s = rev (dropWhile isspace (rev (dropWhile isspace s)))"

text \<open>
  \<^verbatim>\<open>str.lower\<close> follows the case tables of the Unicode database, which are part of
  Python and not of this repository (the Kelvin sign U+212A becomes "k", U+0130 becomes
  two code points). The functions that call it take it as their first argument
  \<open>str_lower\<close>. What is asked of it, where something is, is \<open>lower_on_ascii\<close>: on a
  string of ASCII characters it moves the letters A to Z up by 32 and leaves the rest,
  as \<^verbatim>\<open>str.lower\<close> does. \<open>ascii_lower\<close> is that map, used in the examples.
\<close>

definition ascii_lower_cp :: "nat \<Rightarrow> nat" where
  "ascii_lower_cp c = (if 65 \<le> c \<and> c \<le> 90 then c + 32 else c)"

definition ascii_lower :: "pystr \<Rightarrow> pystr" where
  "ascii_lower s = map ascii_lower_cp s"

definition lower_on_ascii :: "(pystr \<Rightarrow> pystr) \<Rightarrow> bool" where
  "lower_on_ascii str_lower = (\<forall>s. (\<forall>c\<in>set s. c < 128) \<longrightarrow> str_lower s = ascii_lower s)"

text \<open>\<^verbatim>\<open>s.startswith(sub)\<close> and the substring test \<^verbatim>\<open>sub in s\<close>.\<close>

fun startswith :: "pystr \<Rightarrow> pystr \<Rightarrow> bool" where
  "startswith s [] = True"
| "startswith [] (y # ys) = False"
| "startswith (x # xs) (y # ys) = (x = y \<and> startswith xs ys)"

fun contains :: "pystr \<Rightarrow> pystr \<Rightarrow> bool" where
  "contains [] sub = (sub = [])"
| "contains (x # xs) sub = (startswith (x # xs) sub \<or> contains xs sub)"

text \<open>\<^verbatim>\<open>sep.join(xs)\<close>.\<close>

fun join :: "pystr \<Rightarrow> pystr list \<Rightarrow> pystr" where
  "join sep [] = []"
| "join sep [x] = x"
| "join sep (x # y # ys) = x @ sep @ join sep (y # ys)"

text \<open>\<^verbatim>\<open>str(n)\<close> for an \<^verbatim>\<open>int\<close>: the decimal digits, with a minus sign below zero.\<close>

fun digits :: "nat \<Rightarrow> pystr" where
  "digits n = (if n < 10 then [48 + n] else digits (n div 10) @ [48 + n mod 10])"

declare digits.simps [simp del]

definition str_int :: "int \<Rightarrow> pystr" where
  "str_int i = (if i < 0 then 45 # digits (nat (- i)) else digits (nat i))"

section \<open>Prompt construction (app.py)\<close>

text \<open>The list \<^verbatim>\<open>enhancers\<close> of \<^verbatim>\<open>enhance_prompt\<close>, in the order of the source.\<close>

definition enhancers :: "pystr list" where
  "enhancers =
     [lit ''high quality'', lit ''detailed'', lit ''professional'', lit ''artistic'',
      lit ''4k resolution'', lit ''sharp focus'', lit ''well-composed'']"

definition enhance_prompt :: "(pystr \<Rightarrow> pystr) \<Rightarrow> pystr \<Rightarrow> bool \<Rightarrow> pystr" where
  "enhance_prompt str_lower prompt use_enhancer =
     (if \<not> use_enhancer \<or> strip prompt = [] then prompt
      else
        let prompt_lower = str_lower prompt;
            missing_enhancers = filter (\<lambda>e. \<not> contains prompt_lower e) enhancers
        in if missing_enhancers \<noteq> []
           then let selected_enhancers = take 3 missing_enhancers
                in prompt @ lit '', '' @ join (lit '', '') selected_enhancers
           else prompt)"

text \<open>
  The dictionary \<^verbatim>\<open>style_prompts\<close> of \<^verbatim>\<open>generate_image_gradio\<close> in app.py. Every key
  is the label of the drop-down: an emoji (for Landscape an emoji and the variation
  selector U+FE0F), a space and the name.
\<close>

definition style_prompts :: "(pystr \<times> pystr) list" where
  "style_prompts =
     [(0x1F4F8 # lit '' Photorealistic'', lit '', photorealistic, realistic, detailed, high quality''),
      (0x1F3A8 # lit '' Artistic'', lit '', artistic, painting style, creative, expressive''),
      (0x1F31F # lit '' Cinematic'', lit '', cinematic, dramatic lighting, movie scene, epic''),
      (0x2728 # lit '' Fantasy'', lit '', fantasy art, magical, ethereal, mystical''),
      (0x1F52E # lit '' Sci-Fi'', lit '', science fiction, futuristic, high-tech, cyberpunk''),
      (0x1F3DE # 0xFE0F # lit '' Landscape'', lit '', landscape photography, natural lighting, scenic''),
      (0x1F464 # lit '' Portrait'', lit '', portrait, professional headshot, well-lit face''),
      (0x1F3AD # lit '' Vintage'', lit '', vintage style, retro, classic, nostalgic'')]"

text \<open>
  The block "Apply style preset" of \<^verbatim>\<open>generate_image_gradio\<close> in app.py: the value of
  \<^verbatim>\<open>prompt\<close> after it.
\<close>

definition apply_style_preset :: "pystr \<Rightarrow> pystr \<Rightarrow> pystr" where
  "apply_style_preset prompt style_preset =
     (if style_preset \<noteq> lit ''None''
      then (case map_of style_prompts style_preset of
              Some s \<Rightarrow> prompt @ s
            | None \<Rightarrow> prompt)
      else prompt)"

section \<open>Prompt construction (app_vercel.py)\<close>

text \<open>The dictionary \<^verbatim>\<open>style_prompts\<close> of \<^verbatim>\<open>generate_image_gradio\<close> in app_vercel.py.\<close>

definition vercel_style_prompts :: "(pystr \<times> pystr) list" where
  "vercel_style_prompts =
     [(0x1F4F8 # lit '' Photorealistic'', lit '', photorealistic, realistic, detailed, high quality''),
      (0x1F3A8 # lit '' Artistic'', lit '', artistic, painting style, creative, expressive''),
      (0x1F31F # lit '' Cinematic'', lit '', cinematic, dramatic lighting, movie scene, epic''),
      (0x2728 # lit '' Fantasy'', lit '', fantasy art, magical, ethereal, mystical''),
      (0x1F52E # lit '' Sci-Fi'', lit '', science fiction, futuristic, high-tech, cyberpunk''),
      (0x1F3DE # 0xFE0F # lit '' Landscape'', lit '', landscape photography, natural lighting, scenic''),
      (0x1F464 # lit '' Portrait'', lit '', portrait, professional headshot, well-lit face''),
      (0x1F3AD # lit '' Vintage'', lit '', vintage style, retro, classic, nostalgic'')]"

definition vercel_apply_style_preset :: "pystr \<Rightarrow> pystr \<Rightarrow> pystr" where
  "vercel_apply_style_preset prompt style_preset =
     (if style_preset \<noteq> lit ''None''
      then (case map_of vercel_style_prompts style_preset of
              Some s \<Rightarrow> prompt @ s
            | None \<Rightarrow> prompt)
      else prompt)"

section \<open>The generator (app.py)\<close>

text \<open>
  An image is an opaque pixel buffer. A call of the pipeline is recorded with its keyword
  arguments; \<open>arg_negative_prompt = None\<close> and \<open>arg_generator = None\<close> are Python's
  \<^verbatim>\<open>None\<close>, and \<open>Generator d s\<close> is \<^verbatim>\<open>torch.Generator(device=d).manual_seed(s)\<close>
  (taken to accept every \<^verbatim>\<open>int\<close>).
\<close>

datatype image = Image "nat list"

datatype generator = Generator pystr int

record pipeline_call =
  arg_prompt :: pystr
  arg_negative_prompt :: "pystr option"
  arg_width :: int
  arg_height :: int
  arg_num_inference_steps :: int
  arg_guidance_scale :: real
  arg_generator :: "generator option"

text \<open>
  The exceptions that can leave the \<^verbatim>\<open>try\<close> block of \<^verbatim>\<open>generate_image\<close>: whatever the
  pipeline raises (with its message), \<^verbatim>\<open>result.images[0]\<close> on an empty list,
  \<^verbatim>\<open>os.makedirs\<close> on a path that is a file, and saving onto a directory.
\<close>

datatype exn =
    PipelineError pystr
  | IndexError
  | FileExistsError pystr
  | IsADirectoryError pystr

fun str_exn :: "exn \<Rightarrow> pystr" where
  "str_exn (PipelineError m) = m"
| "str_exn IndexError = lit ''list index out of range''"
| "str_exn (FileExistsError p) = lit ''[Errno 17] File exists: '' @ [39] @ p @ [39]"
| "str_exn (IsADirectoryError p) = lit ''[Errno 21] Is a directory: '' @ [39] @ p @ [39]"

datatype log_record = Info pystr | Error pystr

text \<open>
  Everything a request can change: the records sent to \<^verbatim>\<open>logger\<close>, the calls made to
  the pipeline, the directories and files of the file system, and the seconds slept.
\<close>

record world =
  logged :: "log_record list"
  calls :: "pipeline_call list"
  dirs :: "pystr set"
  files :: "pystr \<rightharpoonup> image"
  sleeps :: "nat list"

record TextToImageGenerator =
  model_id :: pystr
  device :: pystr
  pipeline :: "pipeline_call \<Rightarrow> exn + image list"

record datetime =
  year :: nat
  month :: nat
  day :: nat
  hour :: nat
  minute :: nat
  second :: nat

text \<open>
  What one call reads from outside: the value of \<^verbatim>\<open>torch.randint(0, 2**32, (1,)).item()\<close>
  (an integer of the half-open range, hence a 32-bit word), the two readings of
  \<^verbatim>\<open>time.time()\<close> and \<^verbatim>\<open>datetime.now()\<close>. Clock readings and durations are real
  numbers; the rounding of floating-point arithmetic is not modelled.
\<close>

record readings =
  randint :: "32 word"
  time_start :: real
  time_end :: real
  now :: datetime

record info =
  info_prompt :: pystr
  info_negative_prompt :: pystr
  info_width :: int
  info_height :: int
  info_steps :: int
  info_guidance_scale :: real
  info_seed :: int
  info_generation_time :: real
  info_saved_as :: pystr
  info_model :: pystr
  info_device :: pystr

text \<open>\<^verbatim>\<open>s.zfill(n)\<close> on digit strings, and \<^verbatim>\<open>strftime("%Y%m%d_%H%M%S")\<close>.\<close>

definition zfill :: "nat \<Rightarrow> pystr \<Rightarrow> pystr" where
  "zfill n s = replicate (n - length s) 48 @ s"

definition strftime :: "datetime \<Rightarrow> pystr" where
  "strftime t =
     zfill 4 (digits (year t)) @ zfill 2 (digits (month t)) @ zfill 2 (digits (day t)) @
     lit ''_'' @
     zfill 2 (digits (hour t)) @ zfill 2 (digits (minute t)) @ zfill 2 (digits (second t))"

text \<open>
  Rounding to the nearest integer with ties to the even one, \<^verbatim>\<open>round(x, 2)\<close> and the
  format \<^verbatim>\<open>{x:.2f}\<close>.
\<close>

definition round_half_even :: "real \<Rightarrow> int" where
  "round_half_even y =
     (let f = \<lfloor>y\<rfloor>; d = y - of_int f
      in if d < 1 / 2 then f else if 1 / 2 < d then f + 1 else if even f then f else f + 1)"

definition round2 :: "real \<Rightarrow> real" where
  "round2 x = of_int (round_half_even (x * 100)) / 100"

definition fmt_2f :: "real \<Rightarrow> pystr" where
  "fmt_2f x =
     (let r = round_half_even (\<bar>x\<bar> * 100)
      in (if x < 0 then [45] else []) @ digits (nat (r div 100)) @ [46] @
         zfill 2 (digits (nat (r mod 100))))"

text \<open>\<^verbatim>\<open>os.path.join(a, b)\<close> on POSIX.\<close>

definition os_path_join :: "pystr \<Rightarrow> pystr \<Rightarrow> pystr" where
  "os_path_join a b =
     (if startswith b [47] then b
      else if a = [] \<or> last a = 47 then a @ b
      else a @ [47] @ b)"

text \<open>\<^verbatim>\<open>os.makedirs(p, exist_ok=True)\<close> for a single path component, and \<^verbatim>\<open>image.save\<close>.\<close>

definition makedirs :: "pystr \<Rightarrow> world \<Rightarrow> exn + world" where
  "makedirs p w =
     (if files w p \<noteq> None then Inl (FileExistsError p)
      else Inr (w\<lparr>dirs := insert p (dirs w)\<rparr>))"

definition save :: "image \<Rightarrow> pystr \<Rightarrow> world \<Rightarrow> exn + world" where
  "save img output_path w =
     (if output_path \<in> dirs w then Inl (IsADirectoryError output_path)
      else Inr (w\<lparr>files := (files w)(output_path \<mapsto> img)\<rparr>))"

text \<open>The expression \<^verbatim>\<open>negative_prompt or None\<close>: an empty string is falsy.\<close>

definition or_None :: "pystr \<Rightarrow> pystr option" where
  "or_None s = (if s = [] then None else Some s)"

text \<open>
  The block "Set seed for reproducibility" of \<^verbatim>\<open>generate_image\<close>: the values of
  \<^verbatim>\<open>generator\<close> and \<^verbatim>\<open>seed\<close> after it.
\<close>

definition resolve_seed ::
  "TextToImageGenerator \<Rightarrow> readings \<Rightarrow> int option \<Rightarrow> generator option \<times> int" where
  "resolve_seed self env seed =
     (case seed of
        Some s \<Rightarrow> (Some (Generator (device self) s), s)
      | None \<Rightarrow> (None, uint (randint env)))"

text \<open>The body of the \<^verbatim>\<open>try\<close> block of \<^verbatim>\<open>TextToImageGenerator.generate_image\<close>.\<close>

definition generate_image_try ::
  "TextToImageGenerator \<Rightarrow> readings \<Rightarrow> pystr \<Rightarrow> pystr \<Rightarrow> int \<Rightarrow> int \<Rightarrow> int \<Rightarrow> real \<Rightarrow>
   int option \<Rightarrow> world \<Rightarrow> (exn + image \<times> info) \<times> world" where
  "generate_image_try self env prompt negative_prompt width height num_inference_steps
     guidance_scale seed w =
     (let width = max 64 (min 1024 (width div 8 * 8));
          height = max 64 (min 1024 (height div 8 * 8));
          (generator, seed) = resolve_seed self env seed;
          start_time = time_start env;
          w = w\<lparr>logged := logged w @
                [Info (0x1F3A8 # lit '' Generating image: '' @ [39] @ take 50 prompt @
                       lit ''...'' @ [39])]\<rparr>;
          call = \<lparr>arg_prompt = prompt,
                  arg_negative_prompt = or_None negative_prompt,
                  arg_width = width,
                  arg_height = height,
                  arg_num_inference_steps = num_inference_steps,
                  arg_guidance_scale = guidance_scale,
                  arg_generator = generator\<rparr>;
          w = w\<lparr>calls := calls w @ [call]\<rparr>
      in case pipeline self call of
           Inl e \<Rightarrow> (Inl e, w)
         | Inr images \<Rightarrow>
             (case images of
                [] \<Rightarrow> (Inl IndexError, w)
              | img # _ \<Rightarrow>
                  let generation_time = time_end env - start_time;
                      timestamp = strftime (now env);
                      filename = lit ''generated_'' @ timestamp @ lit ''_'' @ str_int seed @
                                 lit ''.png'';
                      output_path = os_path_join (lit ''outputs'') filename
                  in case makedirs (lit ''outputs'') w of
                       Inl e \<Rightarrow> (Inl e, w)
                     | Inr w \<Rightarrow>
                         (case save img output_path w of
                            Inl e \<Rightarrow> (Inl e, w)
                          | Inr w \<Rightarrow>
                              let info = \<lparr>info_prompt = prompt,
                                          info_negative_prompt = negative_prompt,
                                          info_width = width,
                                          info_height = height,
                                          info_steps = num_inference_steps,
                                          info_guidance_scale = guidance_scale,
                                          info_seed = seed,
                                          info_generation_time = round2 generation_time,
                                          info_saved_as = filename,
                                          info_model = model_id self,
                                          info_device = device self\<rparr>;
                                  w = w\<lparr>logged := logged w @
                                        [Info (0x2705 # lit '' Image generated in '' @
                                               fmt_2f generation_time @ lit ''s'')]\<rparr>
                              in (Inr (img, info), w))))"

text \<open>
  \<^verbatim>\<open>TextToImageGenerator.generate_image\<close>: the \<^verbatim>\<open>try\<close> block, and the handler that logs
  the exception and raises it again.
\<close>

definition generate_image ::
  "TextToImageGenerator \<Rightarrow> readings \<Rightarrow> pystr \<Rightarrow> pystr \<Rightarrow> int \<Rightarrow> int \<Rightarrow> int \<Rightarrow> real \<Rightarrow>
   int option \<Rightarrow> world \<Rightarrow> (exn + image \<times> info) \<times> world" where
  "generate_image self env prompt negative_prompt width height num_inference_steps
     guidance_scale seed w =
     (case generate_image_try self env prompt negative_prompt width height num_inference_steps
             guidance_scale seed w of
        (Inl e, w) \<Rightarrow>
          (Inl e, w\<lparr>logged := logged w @
                      [Error (0x274C # lit '' Error generating image: '' @ str_exn e)]\<rparr>)
      | (Inr r, w) \<Rightarrow> (Inr r, w))"

section \<open>The request handler (app.py)\<close>

text \<open>
  \<^verbatim>\<open>generate_image_gradio\<close>, with \<^verbatim>\<open>str.lower\<close> and the module's \<^verbatim>\<open>generator\<close> as its
  first arguments. The result \<open>None\<close> is \<^verbatim>\<open>return None\<close>; width, height and steps
  arrive as integers.
\<close>

definition generate_image_gradio ::
  "(pystr \<Rightarrow> pystr) \<Rightarrow> TextToImageGenerator \<Rightarrow> readings \<Rightarrow> pystr \<Rightarrow> pystr \<Rightarrow> pystr \<Rightarrow> int \<Rightarrow> int \<Rightarrow> int \<Rightarrow> bool \<Rightarrow>
   world \<Rightarrow> image option \<times> world" where
  "generate_image_gradio str_lower generator env prompt negative_prompt style_preset width height
     steps use_enhancer w =
     (if prompt = [] \<or> strip prompt = [] then (None, w)
      else
        let prompt = apply_style_preset prompt style_preset;
            enhanced_prompt = enhance_prompt str_lower prompt use_enhancer
        in case generate_image generator env enhanced_prompt negative_prompt width height steps
                  (75 / 10) None w of
             (Inr (img, info), w) \<Rightarrow> (Some img, w)
           | (Inl e, w) \<Rightarrow>
               (None, w\<lparr>logged := logged w @
                          [Error (0x274C # lit '' Error generating image: '' @ str_exn e)]\<rparr>))"

section \<open>The demo variant (app_vercel.py)\<close>

record demo_info =
  demo_prompt :: pystr
  demo_status :: pystr
  demo_suggestion :: pystr

text \<open>\<^verbatim>\<open>DemoImageGenerator.generate_image\<close>: two seconds of sleep, no image.\<close>

definition DemoImageGenerator_generate_image ::
  "pystr \<Rightarrow> world \<Rightarrow> (image option \<times> demo_info) \<times> world" where
  "DemoImageGenerator_generate_image prompt w =
     (let w = w\<lparr>sleeps := sleeps w @ [2]\<rparr>
      in ((None,
           \<lparr>demo_prompt = prompt,
            demo_status = lit ''Demo mode - actual generation requires GPU resources'',
            demo_suggestion =
              lit ''For full functionality, run locally or use cloud GPU services''\<rparr>),
          w))"

text \<open>
  The f-string \<^verbatim>\<open>demo_message\<close> of \<^verbatim>\<open>generate_image_gradio\<close> in app_vercel.py, as a
  function of the variables it interpolates.
\<close>

definition demo_message :: "pystr \<Rightarrow> int \<Rightarrow> int \<Rightarrow> int \<Rightarrow> pystr \<Rightarrow> pystr" where
  "demo_message prompt width height steps style_preset =
     [10, 0x1F3A8] @ lit '' DreamForge Studio - Web Demo'' @
     [10, 10, 0x1F4DD] @ lit '' Your prompt: '' @ [34] @ take 100 prompt @
     lit ''...'' @ [34, 10, 0x2699, 0xFE0F] @ lit '' Settings: '' @ str_int width @
     [0xD7] @ str_int height @ lit '', '' @ str_int steps @ lit '' steps'' @
     [10, 0x1F3AD] @ lit '' Style: '' @ style_preset @
     [10, 10, 0x1F310] @
     lit '' This is a web demo version. For full AI image generation:'' @
     [10, 0x2022] @ lit '' Download and run locally for CPU generation'' @
     [10, 0x2022] @ lit '' Use cloud GPU services for faster generation'' @
     [10, 0x2022] @ lit '' Integrate with AI APIs for production deployment'' @
     [10, 10, 0x1F680] @
     lit '' The interface is fully functional - only the AI model '' @ [10] @
     lit ''   requires local resources or cloud GPU for actual generation.'' @ [10] @
     lit ''        ''"

text \<open>
  \<^verbatim>\<open>generate_image_gradio\<close> of app_vercel.py. The result \<open>Some m\<close> is
  \<^verbatim>\<open>gr.update(value=m)\<close>, the text shown in the output box, and \<open>None\<close> is
  \<^verbatim>\<open>return None\<close>; width, height and steps arrive as integers.
\<close>

definition vercel_generate_image_gradio ::
  "pystr \<Rightarrow> pystr \<Rightarrow> pystr \<Rightarrow> int \<Rightarrow> int \<Rightarrow> int \<Rightarrow> bool \<Rightarrow> world \<Rightarrow> pystr option \<times> world" where
  "vercel_generate_image_gradio prompt negative_prompt style_preset width height steps
     use_enhancer w =
     (if prompt = [] \<or> strip prompt = [] then (None, w)
      else
        let prompt = vercel_apply_style_preset prompt style_preset
        in (Some (demo_message prompt width height steps style_preset), w))"

section \<open>The specification's own wording\<close>

text \<open>
  The dimension rule as the specification words it: clamp to the range from 64 to 1024,
  then round down to a multiple of 8.
\<close>

definition spec_clamp_dim :: "int \<Rightarrow> int" where
  "spec_clamp_dim d = (let d' = max 64 (min 1024 d) in (d' div 8) * 8)"

text \<open>
  The fixed ordered list of quality terms, as the specification gives it. A term occurs
  case-insensitively in a prompt when, both in lower case, the term is a stretch of the
  prompt; the missing terms are those of the list that do not, in the order of the list.
\<close>

definition spec_quality_terms :: "pystr list" where
  "spec_quality_terms =
     [lit ''high quality'', lit ''detailed'', lit ''professional'', lit ''artistic'',
      lit ''4k resolution'', lit ''sharp focus'', lit ''well-composed'']"

definition occurs_ci :: "(pystr \<Rightarrow> pystr) \<Rightarrow> pystr \<Rightarrow> pystr \<Rightarrow> bool" where
  "occurs_ci str_lower e p = contains (str_lower p) (str_lower e)"

definition spec_missing_terms :: "(pystr \<Rightarrow> pystr) \<Rightarrow> pystr \<Rightarrow> pystr list" where
  "spec_missing_terms str_lower p = filter (\<lambda>e. \<not> occurs_ci str_lower e p) spec_quality_terms"

section \<open>Notation for the statements, and example inputs\<close>

text \<open>
  The call that \<open>generate_image\<close> makes, the name and the path of the file it writes,
  the metadata it returns, the world once the call is made, and the record of an error
  log line.
\<close>

abbreviation call_of ::
  "TextToImageGenerator \<Rightarrow> readings \<Rightarrow> pystr \<Rightarrow> pystr \<Rightarrow> int \<Rightarrow> int \<Rightarrow> int \<Rightarrow> real \<Rightarrow>
   int option \<Rightarrow> pipeline_call" where
  "call_of self env prompt negative_prompt width height steps gs seed \<equiv>
     \<lparr>arg_prompt = prompt,
      arg_negative_prompt = or_None negative_prompt,
      arg_width = max 64 (min 1024 (width div 8 * 8)),
      arg_height = max 64 (min 1024 (height div 8 * 8)),
      arg_num_inference_steps = steps,
      arg_guidance_scale = gs,
      arg_generator = fst (resolve_seed self env seed)\<rparr>"

abbreviation filename_of :: "TextToImageGenerator \<Rightarrow> readings \<Rightarrow> int option \<Rightarrow> pystr" where
  "filename_of self env seed \<equiv>
     lit ''generated_'' @ strftime (now env) @ lit ''_'' @
     str_int (snd (resolve_seed self env seed)) @ lit ''.png''"

abbreviation path_of :: "TextToImageGenerator \<Rightarrow> readings \<Rightarrow> int option \<Rightarrow> pystr" where
  "path_of self env seed \<equiv>
     lit ''outputs/generated_'' @ strftime (now env) @ lit ''_'' @
     str_int (snd (resolve_seed self env seed)) @ lit ''.png''"

abbreviation info_of ::
  "TextToImageGenerator \<Rightarrow> readings \<Rightarrow> pystr \<Rightarrow> pystr \<Rightarrow> int \<Rightarrow> int \<Rightarrow> int \<Rightarrow> real \<Rightarrow>
   int option \<Rightarrow> info" where
  "info_of self env prompt negative_prompt width height steps gs seed \<equiv>
     \<lparr>info_prompt = prompt,
      info_negative_prompt = negative_prompt,
      info_width = max 64 (min 1024 (width div 8 * 8)),
      info_height = max 64 (min 1024 (height div 8 * 8)),
      info_steps = steps,
      info_guidance_scale = gs,
      info_seed = snd (resolve_seed self env seed),
      info_generation_time = round2 (time_end env - time_start env),
      info_saved_as = filename_of self env seed,
      info_model = model_id self,
      info_device = device self\<rparr>"

abbreviation started :: "pystr \<Rightarrow> pipeline_call \<Rightarrow> world \<Rightarrow> world" where
  "started prompt c w \<equiv>
     w\<lparr>logged := logged w @
          [Info (0x1F3A8 # lit '' Generating image: '' @ [39] @ take 50 prompt @
                 lit ''...'' @ [39])],
       calls := calls w @ [c]\<rparr>"

abbreviation error_record :: "exn \<Rightarrow> log_record" where
  "error_record e \<equiv> Error (0x274C # lit '' Error generating image: '' @ str_exn e)"

text \<open>
  A generator whose pipeline returns one image, one whose pipeline raises, readings of
  the clocks and of the random source, and a world with nothing in it.
\<close>

definition example_generator :: TextToImageGenerator where
  "example_generator =
     \<lparr>model_id = lit ''runwayml/stable-diffusion-v1-5'',
      device = lit ''cpu'',
      pipeline = (\<lambda>c. Inr [Image [1, 2, 3]])\<rparr>"

definition failing_generator :: TextToImageGenerator where
  "failing_generator =
     \<lparr>model_id = lit ''runwayml/stable-diffusion-v1-5'',
      device = lit ''cpu'',
      pipeline = (\<lambda>c. Inl (PipelineError (lit ''out of memory'')))\<rparr>"

definition example_readings :: readings where
  "example_readings =
     \<lparr>randint = 7,
      time_start = 10,
      time_end = 123456 / 10000,
      now = \<lparr>year = 2024, month = 1, day = 2, hour = 3, minute = 4, second = 5\<rparr>\<rparr>"

definition empty_world :: world where
  "empty_world = \<lparr>logged = [], calls = [], dirs = {}, files = Map.empty, sleeps = []\<rparr>"

section \<open>Facts about the string operations\<close>

lemma lit_Nil: "lit [] = []" by (simp add: lit_def)
lemma lit_Cons: "lit (c # cs) = of_char c # lit cs" by (simp add: lit_def)
lemmas lit_simps = lit_Nil lit_Cons

lemma startswith_iff: "startswith s sub \<longleftrightarrow> (\<exists>x. s = sub @ x)"
  by (induction s sub rule: startswith.induct) auto

lemma contains_iff: "contains s sub \<longleftrightarrow> (\<exists>u x. s = u @ sub @ x)"
proof (induction s)
  case Nil
  then show ?case by auto
next
  case (Cons a s)
  show ?case
  proof
    assume "contains (a # s) sub"
    then consider "startswith (a # s) sub" | "contains s sub" by auto
    then show "\<exists>u x. a # s = u @ sub @ x"
    proof cases
      case 1
      then obtain x where "a # s = sub @ x" by (auto simp: startswith_iff)
      then have "a # s = [] @ sub @ x" by simp
      then show ?thesis by blast
    next
      case 2
      then obtain u x where "s = u @ sub @ x" using Cons.IH by blast
      then have "a # s = (a # u) @ sub @ x" by simp
      then show ?thesis by blast
    qed
  next
    assume "\<exists>u x. a # s = u @ sub @ x"
    then obtain u x where ux: "a # s = u @ sub @ x" by blast
    show "contains (a # s) sub"
    proof (cases u)
      case Nil
      with ux have "startswith (a # s) sub" by (auto simp: startswith_iff)
      then show ?thesis by simp
    next
      case (Cons b u')
      with ux have "s = u' @ sub @ x" by simp
      then have "contains s sub" using Cons.IH by blast
      then show ?thesis by simp
    qed
  qed
qed

lemma all_dropWhile: "(\<forall>x\<in>set (dropWhile P s). P x) \<longleftrightarrow> (\<forall>x\<in>set s. P x)"
  by (induction s) auto

lemma strip_empty_iff: "strip s = [] \<longleftrightarrow> (\<forall>c\<in>set s. isspace c)"
  by (simp add: strip_def all_dropWhile)

lemma lower_on_ascii_ascii_lower: "lower_on_ascii ascii_lower"
  by (simp add: lower_on_ascii_def)

lemma enhancers_eq: "enhancers = spec_quality_terms"
  by (simp add: enhancers_def spec_quality_terms_def)

lemma enhancers_ascii: "e \<in> set enhancers \<Longrightarrow> (\<forall>c\<in>set e. c < 128) \<and> ascii_lower e = e"
  by (auto simp: enhancers_def ascii_lower_def ascii_lower_cp_def lit_simps)

lemma enhancers_lower:
  assumes "lower_on_ascii str_lower" and "e \<in> set enhancers"
  shows "str_lower e = e"
proof -
  from assms(2) have a: "\<forall>c\<in>set e. c < 128" and b: "ascii_lower e = e"
    using enhancers_ascii by blast+
  from assms(1) a have "str_lower e = ascii_lower e"
    unfolding lower_on_ascii_def by blast
  with b show ?thesis by simp
qed

lemma spec_missing_terms_eq:
  assumes "lower_on_ascii str_lower"
  shows "spec_missing_terms str_lower p =
         filter (\<lambda>e. \<not> contains (str_lower p) e) enhancers"
  unfolding spec_missing_terms_def enhancers_eq [symmetric]
  by (rule filter_cong) (simp_all add: occurs_ci_def enhancers_lower [OF assms])

lemma join_concat: "xs \<noteq> [] \<Longrightarrow> sep @ join sep xs = concat (map (\<lambda>t. sep @ t) xs)"
  by (induction sep xs rule: join.induct) simp_all

lemma enhance_prompt_unfold:
  "enhance_prompt str_lower p use =
     (if \<not> use \<or> strip p = [] then p
      else p @ concat (map (\<lambda>t. lit '', '' @ t)
                 (take 3 (filter (\<lambda>e. \<not> contains (str_lower p) e) enhancers))))"
proof (cases "filter (\<lambda>e. \<not> contains (str_lower p) e) enhancers = []")
  case True
  then show ?thesis by (simp add: enhance_prompt_def Let_def)
next
  case False
  then have "take 3 (filter (\<lambda>e. \<not> contains (str_lower p) e) enhancers) \<noteq> []"
    by simp
  from join_concat [OF this, of "lit '', ''"] False show ?thesis
    by (simp add: enhance_prompt_def Let_def)
qed

lemma enhance_prompt_general:
  assumes "lower_on_ascii str_lower"
  shows "enhance_prompt str_lower p use =
     (if \<not> use \<or> strip p = [] then p
      else p @ concat (map (\<lambda>t. lit '', '' @ t) (take 3 (spec_missing_terms str_lower p))))"
  by (simp only: enhance_prompt_unfold spec_missing_terms_eq [OF assms])

lemma strip_a_cat: "strip (lit ''a cat'') \<noteq> []"
  by (simp add: strip_def isspace_def lit_simps)

lemma lower_a_cat:
  assumes "lower_on_ascii str_lower"
  shows "str_lower (lit ''a cat'') = lit ''a cat''"
proof -
  have "\<forall>c\<in>set (lit ''a cat''). c < 128" by (simp add: lit_simps)
  with assms have "str_lower (lit ''a cat'') = ascii_lower (lit ''a cat'')"
    unfolding lower_on_ascii_def by blast
  then show ?thesis by (simp add: ascii_lower_def ascii_lower_cp_def lit_simps)
qed

lemma missing_a_cat:
  assumes "lower_on_ascii str_lower"
  shows "spec_missing_terms str_lower (lit ''a cat'') = spec_quality_terms"
  unfolding spec_missing_terms_eq [OF assms] lower_a_cat [OF assms]
  by (simp add: enhancers_def spec_quality_terms_def lit_simps)

lemma enhance_a_cat:
  assumes "lower_on_ascii str_lower"
  shows "enhance_prompt str_lower (lit ''a cat'') True =
         lit ''a cat, high quality, detailed, professional''"
  unfolding enhance_prompt_general [OF assms] missing_a_cat [OF assms]
  by (simp add: strip_a_cat) (simp add: spec_quality_terms_def lit_simps)

text \<open>
  A prompt that spells "4k" with the Kelvin sign: once \<open>str_lower\<close> turns the sign into
  "k", as \<^verbatim>\<open>str.lower\<close> does, the term "4k resolution" is present and "sharp focus" is
  the third term appended.
\<close>

lemma enhance_kelvin_sign:
  assumes "str_lower (lit ''high quality, detailed, 4'' @ [0x212A] @ lit '' resolution'') =
           lit ''high quality, detailed, 4k resolution''"
  shows "enhance_prompt str_lower
           (lit ''high quality, detailed, 4'' @ [0x212A] @ lit '' resolution'') True =
         lit ''high quality, detailed, 4'' @ [0x212A] @
         lit '' resolution, professional, artistic, sharp focus''"
proof -
  have "strip (lit ''high quality, detailed, 4'' @ [0x212A] @ lit '' resolution'') \<noteq> []"
    by (simp add: strip_def isspace_def lit_simps)
  then show ?thesis
    unfolding enhance_prompt_unfold assms
    by (simp add: enhancers_def lit_simps)
qed

section \<open>Prompt construction: the enhancer and the style presets\<close>

lemma missing_mixed_case:
  "spec_missing_terms ascii_lower (lit ''A Cat, Detailed'') =
     [lit ''high quality'', lit ''professional'', lit ''artistic'', lit ''4k resolution'',
      lit ''sharp focus'', lit ''well-composed'']"
  by (simp add: spec_missing_terms_eq [OF lower_on_ascii_ascii_lower] enhancers_def
        ascii_lower_def ascii_lower_cp_def lit_simps)

lemma prefix_enhance_prompt: "prefix p (enhance_prompt str_lower p flag)"
  by (simp add: enhance_prompt_def Let_def)

lemma prefix_apply_style_preset: "prefix p (apply_style_preset p s)"
  by (simp add: apply_style_preset_def split: option.split)

lemma prefix_vercel_apply_style_preset: "prefix p (vercel_apply_style_preset p s)"
  by (simp add: vercel_apply_style_preset_def split: option.split)

lemma style_tables_equal: "vercel_style_prompts = style_prompts"
  by (simp add: vercel_style_prompts_def style_prompts_def)

lemma None_not_a_style: "map_of style_prompts (lit ''None'') = None"
  by (simp add: style_prompts_def lit_simps)

lemma apply_style_preset_key:
  assumes "map_of style_prompts s = Some sfx"
  shows "apply_style_preset p s = p @ sfx"
proof -
  from assms have "s \<noteq> lit ''None''" using None_not_a_style by auto
  with assms show ?thesis by (simp add: apply_style_preset_def)
qed

lemma photorealistic_suffix:
  "map_of style_prompts (0x1F4F8 # lit '' Photorealistic'') =
     Some (lit '', photorealistic, realistic, detailed, high quality'')"
  by (simp add: style_prompts_def lit_simps)

lemma style_suffixes_comma:
  "(k, sfx) \<in> set style_prompts \<Longrightarrow> startswith sfx (lit '', '')"
  by (auto simp: style_prompts_def lit_simps)

lemma vercel_apply_style_preset_eq:
  "vercel_apply_style_preset p s = apply_style_preset p s"
  by (simp add: vercel_apply_style_preset_def apply_style_preset_def style_tables_equal)

lemma artistic_suffix:
  "map_of style_prompts (0x1F3A8 # lit '' Artistic'') =
     Some (lit '', artistic, painting style, creative, expressive'')"
  by (simp add: style_prompts_def lit_simps)

text \<open>
  Claim C3. With the flag off \<open>enhance_prompt\<close> returns the prompt, and so it does for
  an empty or whitespace-only prompt. Otherwise, whatever \<^verbatim>\<open>str.lower\<close> does beyond
  ASCII, it takes the terms of the fixed list that do not occur case-insensitively in
  the prompt, in the order of the list, and appends the first three of them at most,
  each after a comma and a space. For the prompt "a cat" every term is missing and the
  first three are appended.
\<close>

theorem enhance_prompt_appends_missing_terms:
  "enhance_prompt str_lower p False = p \<and>
   ((\<forall>c\<in>set p. isspace c) \<longrightarrow> enhance_prompt str_lower p True = p) \<and>
   (lower_on_ascii str_lower \<and> (\<exists>c\<in>set p. \<not> isspace c) \<longrightarrow>
      enhance_prompt str_lower p True =
        p @ concat (map (\<lambda>t. lit '', '' @ t) (take 3 (spec_missing_terms str_lower p)))) \<and>
   length (take 3 (spec_missing_terms str_lower p)) \<le> 3 \<and>
   (lower_on_ascii str_lower \<longrightarrow>
      spec_missing_terms str_lower (lit ''a cat'') = spec_quality_terms \<and>
      enhance_prompt str_lower (lit ''a cat'') True =
        lit ''a cat, high quality, detailed, professional'')"
proof -
  have off: "enhance_prompt str_lower p False = p"
    by (simp add: enhance_prompt_unfold)
  have blank: "(\<forall>c\<in>set p. isspace c) \<longrightarrow> enhance_prompt str_lower p True = p"
    by (simp add: enhance_prompt_unfold strip_empty_iff)
  have solid: "lower_on_ascii str_lower \<and> (\<exists>c\<in>set p. \<not> isspace c) \<longrightarrow>
      enhance_prompt str_lower p True =
        p @ concat (map (\<lambda>t. lit '', '' @ t) (take 3 (spec_missing_terms str_lower p)))"
  proof
    assume a: "lower_on_ascii str_lower \<and> (\<exists>c\<in>set p. \<not> isspace c)"
    then have "strip p \<noteq> []" by (simp add: strip_empty_iff)
    with a show "enhance_prompt str_lower p True =
        p @ concat (map (\<lambda>t. lit '', '' @ t) (take 3 (spec_missing_terms str_lower p)))"
      by (simp add: enhance_prompt_general)
  qed
  have three: "length (take 3 (spec_missing_terms str_lower p)) \<le> 3"
    by simp
  from off blank solid three missing_a_cat enhance_a_cat show ?thesis
    by blast
qed

theorem enhance_prompt_appends_missing_terms_witness:
  "enhance_prompt ascii_lower (lit ''  '') True = lit ''  '' \<and>
   enhance_prompt ascii_lower (lit ''A Cat, Detailed'') True =
     lit ''A Cat, Detailed, high quality, professional, artistic'' \<and>
   enhance_prompt ascii_lower (lit ''a cat'') True =
     lit ''a cat, high quality, detailed, professional''"
proof -
  have blank: "\<forall>c\<in>set (lit ''  ''). isspace c"
    by (simp add: isspace_def lit_simps)
  have solid: "\<exists>c\<in>set (lit ''A Cat, Detailed''). \<not> isspace c"
    by (simp add: isspace_def lit_simps)
  from blank enhance_prompt_appends_missing_terms [of ascii_lower "lit ''  ''"]
  have a: "enhance_prompt ascii_lower (lit ''  '') True = lit ''  ''" by blast
  from solid lower_on_ascii_ascii_lower
    enhance_prompt_appends_missing_terms [of ascii_lower "lit ''A Cat, Detailed''"]
  have "enhance_prompt ascii_lower (lit ''A Cat, Detailed'') True =
        lit ''A Cat, Detailed'' @
        concat (map (\<lambda>t. lit '', '' @ t)
                  (take 3 (spec_missing_terms ascii_lower (lit ''A Cat, Detailed''))))"
    by blast
  then have b: "enhance_prompt ascii_lower (lit ''A Cat, Detailed'') True =
     lit ''A Cat, Detailed, high quality, professional, artistic''"
    unfolding missing_mixed_case by (simp add: lit_simps)
  from lower_on_ascii_ascii_lower
    enhance_prompt_appends_missing_terms [of ascii_lower "lit ''a cat''"]
  have c: "enhance_prompt ascii_lower (lit ''a cat'') True =
     lit ''a cat, high quality, detailed, professional''"
    by blast
  from a b c show ?thesis by simp
qed

text \<open>
  Claim C4. A preset of the table appends its fixed suffix, which starts with a comma and
  a space, to the prompt, in both variants; the preset Photorealistic, whose key is the
  label of the drop-down, turns "X" into "X, photorealistic, realistic, detailed, high
  quality"; and the two variants hold the same table.
\<close>

theorem style_preset_appends_suffix:
  "(map_of style_prompts style_preset = Some sfx \<longrightarrow>
      style_preset \<noteq> lit ''None'' \<and>
      startswith sfx (lit '', '') \<and>
      apply_style_preset p style_preset = p @ sfx \<and>
      vercel_apply_style_preset p style_preset = p @ sfx) \<and>
   apply_style_preset (lit ''X'') (0x1F4F8 # lit '' Photorealistic'') =
     lit ''X, photorealistic, realistic, detailed, high quality'' \<and>
   vercel_apply_style_preset (lit ''X'') (0x1F4F8 # lit '' Photorealistic'') =
     lit ''X, photorealistic, realistic, detailed, high quality'' \<and>
   vercel_style_prompts = style_prompts"
proof -
  have gen: "map_of style_prompts style_preset = Some sfx \<longrightarrow>
      style_preset \<noteq> lit ''None'' \<and>
      startswith sfx (lit '', '') \<and>
      apply_style_preset p style_preset = p @ sfx \<and>
      vercel_apply_style_preset p style_preset = p @ sfx"
  proof
    assume k: "map_of style_prompts style_preset = Some sfx"
    then have n: "style_preset \<noteq> lit ''None''" using None_not_a_style by auto
    from k have c: "startswith sfx (lit '', '')"
      using style_suffixes_comma map_of_SomeD by fast
    from k have a: "apply_style_preset p style_preset = p @ sfx"
      by (rule apply_style_preset_key)
    from a have v: "vercel_apply_style_preset p style_preset = p @ sfx"
      by (simp only: vercel_apply_style_preset_eq)
    from n c a v show "style_preset \<noteq> lit ''None'' \<and>
      startswith sfx (lit '', '') \<and>
      apply_style_preset p style_preset = p @ sfx \<and>
      vercel_apply_style_preset p style_preset = p @ sfx" by simp
  qed
  have x: "apply_style_preset (lit ''X'') (0x1F4F8 # lit '' Photorealistic'') =
     lit ''X, photorealistic, realistic, detailed, high quality''"
    by (simp add: apply_style_preset_key [OF photorealistic_suffix]) (simp add: lit_simps)
  have y: "vercel_apply_style_preset (lit ''X'') (0x1F4F8 # lit '' Photorealistic'') =
     lit ''X, photorealistic, realistic, detailed, high quality''"
    using x by (simp only: vercel_apply_style_preset_eq)
  from gen x y style_tables_equal show ?thesis by blast
qed

theorem style_preset_appends_suffix_witness:
  "apply_style_preset (lit ''a dog'') (0x1F3A8 # lit '' Artistic'') =
     lit ''a dog, artistic, painting style, creative, expressive'' \<and>
   vercel_apply_style_preset (lit ''a dog'') (0x1F3A8 # lit '' Artistic'') =
     lit ''a dog, artistic, painting style, creative, expressive''"
  using artistic_suffix
    style_preset_appends_suffix [of "0x1F3A8 # lit '' Artistic''"
      "lit '', artistic, painting style, creative, expressive''" "lit ''a dog''"]
  by (simp add: lit_simps)

text \<open>
  Claim C10. The enhancer and the style presets only append: whatever \<^verbatim>\<open>str.lower\<close>
  does, the prompt is a prefix of the enhanced prompt for either value of the flag, of the prompt with the style applied
  in both variants, and of the two applied one after the other.
\<close>

theorem prompt_transformations_only_append:
  "prefix p (enhance_prompt str_lower p flag) \<and>
   prefix p (apply_style_preset p style_preset) \<and>
   prefix p (vercel_apply_style_preset p style_preset) \<and>
   prefix p (enhance_prompt str_lower (apply_style_preset p style_preset) flag)"
  using prefix_enhance_prompt prefix_apply_style_preset prefix_vercel_apply_style_preset
    prefix_order.trans by blast

theorem prompt_transformations_only_append_witness:
  "prefix (lit ''a cat'') (lit ''a cat, high quality, detailed, professional'') \<and>
   prefix (lit ''a dog'') (lit ''a dog, artistic, painting style, creative, expressive'')"
  using prompt_transformations_only_append [where str_lower=ascii_lower and p="lit ''a cat''" and
      flag=True and style_preset="lit ''None''"]
    prompt_transformations_only_append [where str_lower=ascii_lower and p="lit ''a dog''" and
      flag=False and style_preset="0x1F3A8 # lit '' Artistic''"]
  by (simp add: enhance_a_cat [OF lower_on_ascii_ascii_lower]
        apply_style_preset_key [OF artistic_suffix]) (simp add: lit_simps)

section \<open>The ways through the generator\<close>

lemma output_path_eq:
  "os_path_join (lit ''outputs'') (lit ''generated_'' @ x) = lit ''outputs/generated_'' @ x"
  by (simp add: os_path_join_def lit_simps)

lemma output_path_neq: "lit ''outputs/generated_'' @ x \<noteq> lit ''outputs''"
  by (simp add: lit_simps)

lemma try_pipeline_raises:
  assumes "pipeline self (call_of self env prompt negative_prompt width height steps gs seed) = Inl e"
  shows "generate_image_try self env prompt negative_prompt width height steps gs seed w =
         (Inl e, started prompt (call_of self env prompt negative_prompt width height steps gs seed) w)"
  using assms by (simp add: generate_image_try_def Let_def case_prod_beta)

lemma try_no_images:
  assumes "pipeline self (call_of self env prompt negative_prompt width height steps gs seed) = Inr []"
  shows "generate_image_try self env prompt negative_prompt width height steps gs seed w =
         (Inl IndexError, started prompt (call_of self env prompt negative_prompt width height steps gs seed) w)"
  using assms by (simp add: generate_image_try_def Let_def case_prod_beta)

lemma try_outputs_is_file:
  assumes "pipeline self (call_of self env prompt negative_prompt width height steps gs seed) = Inr (img # rest)"
    and "files w (lit ''outputs'') \<noteq> None"
  shows "generate_image_try self env prompt negative_prompt width height steps gs seed w =
         (Inl (FileExistsError (lit ''outputs'')),
          started prompt (call_of self env prompt negative_prompt width height steps gs seed) w)"
  using assms by (simp add: generate_image_try_def Let_def case_prod_beta makedirs_def)

lemma try_path_is_dir:
  assumes "pipeline self (call_of self env prompt negative_prompt width height steps gs seed) = Inr (img # rest)"
    and "files w (lit ''outputs'') = None"
    and "path_of self env seed \<in> dirs w"
  shows "generate_image_try self env prompt negative_prompt width height steps gs seed w =
         (Inl (IsADirectoryError (path_of self env seed)),
          (started prompt (call_of self env prompt negative_prompt width height steps gs seed) w)
            \<lparr>dirs := insert (lit ''outputs'') (dirs w)\<rparr>)"
  using assms
  by (simp add: generate_image_try_def Let_def case_prod_beta makedirs_def save_def output_path_eq)

lemma try_returns:
  assumes "pipeline self (call_of self env prompt negative_prompt width height steps gs seed) = Inr (img # rest)"
    and "files w (lit ''outputs'') = None"
    and "path_of self env seed \<notin> dirs w"
  shows "generate_image_try self env prompt negative_prompt width height steps gs seed w =
         (Inr (img, info_of self env prompt negative_prompt width height steps gs seed),
          (started prompt (call_of self env prompt negative_prompt width height steps gs seed) w)
            \<lparr>logged := logged w @
                [Info (0x1F3A8 # lit '' Generating image: '' @ [39] @ take 50 prompt @
                       lit ''...'' @ [39]),
                 Info (0x2705 # lit '' Image generated in '' @
                       fmt_2f (time_end env - time_start env) @ lit ''s'')],
              dirs := insert (lit ''outputs'') (dirs w),
              files := (files w)(path_of self env seed \<mapsto> img)\<rparr>)"
  using assms
  by (simp add: generate_image_try_def Let_def case_prod_beta makedirs_def save_def
        output_path_eq output_path_neq)

lemma generate_image_raises:
  "generate_image_try self env prompt negative_prompt width height steps gs seed w = (Inl e, w1) \<Longrightarrow>
   generate_image self env prompt negative_prompt width height steps gs seed w =
     (Inl e, w1\<lparr>logged := logged w1 @ [error_record e]\<rparr>)"
  by (simp add: generate_image_def)

lemma generate_image_returns:
  "generate_image_try self env prompt negative_prompt width height steps gs seed w = (Inr r, w1) \<Longrightarrow>
   generate_image self env prompt negative_prompt width height steps gs seed w = (Inr r, w1)"
  by (simp add: generate_image_def)

text \<open>The five ways through \<open>generate_image\<close>.\<close>

lemma generate_image_cases:
  fixes self env prompt negative_prompt width height steps gs seed w
  defines "c \<equiv> call_of self env prompt negative_prompt width height steps gs seed"
  defines "r \<equiv> generate_image self env prompt negative_prompt width height steps gs seed w"
  obtains
    (pipeline_raises) e where "pipeline self c = Inl e"
      "r = (Inl e, (started prompt c w)\<lparr>logged := logged (started prompt c w) @ [error_record e]\<rparr>)"
  | (no_images) "pipeline self c = Inr []"
      "r = (Inl IndexError,
            (started prompt c w)\<lparr>logged := logged (started prompt c w) @ [error_record IndexError]\<rparr>)"
  | (outputs_is_file) img rest where "pipeline self c = Inr (img # rest)"
      "files w (lit ''outputs'') \<noteq> None"
      "r = (Inl (FileExistsError (lit ''outputs'')),
            (started prompt c w)\<lparr>logged := logged (started prompt c w) @
               [error_record (FileExistsError (lit ''outputs''))]\<rparr>)"
  | (path_is_dir) img rest where "pipeline self c = Inr (img # rest)"
      "files w (lit ''outputs'') = None" "path_of self env seed \<in> dirs w"
      "r = (Inl (IsADirectoryError (path_of self env seed)),
            (started prompt c w)
              \<lparr>logged := logged (started prompt c w) @
                 [error_record (IsADirectoryError (path_of self env seed))],
               dirs := insert (lit ''outputs'') (dirs w)\<rparr>)"
  | (returns) img rest where "pipeline self c = Inr (img # rest)"
      "files w (lit ''outputs'') = None" "path_of self env seed \<notin> dirs w"
      "r = (Inr (img, info_of self env prompt negative_prompt width height steps gs seed),
            (started prompt c w)
              \<lparr>logged := logged w @
                 [Info (0x1F3A8 # lit '' Generating image: '' @ [39] @ take 50 prompt @
                        lit ''...'' @ [39]),
                  Info (0x2705 # lit '' Image generated in '' @
                        fmt_2f (time_end env - time_start env) @ lit ''s'')],
               dirs := insert (lit ''outputs'') (dirs w),
               files := (files w)(path_of self env seed \<mapsto> img)\<rparr>)"
proof (cases "pipeline self c")
  case (Inl e)
  then show ?thesis
    using pipeline_raises [of e] try_pipeline_raises [THEN generate_image_raises]
    unfolding c_def r_def by simp
next
  case (Inr images)
  show ?thesis
  proof (cases images)
    case Nil
    with Inr show ?thesis
      using no_images try_no_images [THEN generate_image_raises]
      unfolding c_def r_def by simp
  next
    case (Cons img rest)
    with Inr have p: "pipeline self c = Inr (img # rest)" by simp
    show ?thesis
    proof (cases "files w (lit ''outputs'') = None")
      case False
      with p show ?thesis
        using outputs_is_file [of img rest] try_outputs_is_file [THEN generate_image_raises]
        unfolding c_def r_def by simp
    next
      case True
      show ?thesis
      proof (cases "path_of self env seed \<in> dirs w")
        case d: True
        from p True d show ?thesis
          using path_is_dir [of img rest] try_path_is_dir [THEN generate_image_raises]
          unfolding c_def r_def by simp
      next
        case d: False
        from p True d show ?thesis
          using returns [of img rest] try_returns [THEN generate_image_returns]
          unfolding c_def r_def by simp
      qed
    qed
  qed
qed

lemma generate_image_Inr_D:
  assumes "generate_image self env prompt negative_prompt width height steps gs seed w =
           (Inr (img, i), w')"
  shows "i = info_of self env prompt negative_prompt width height steps gs seed \<and>
         dirs w' = insert (lit ''outputs'') (dirs w) \<and>
         files w' = (files w)(path_of self env seed \<mapsto> img) \<and>
         sleeps w' = sleeps w \<and>
         files w (lit ''outputs'') = None \<and>
         path_of self env seed \<notin> dirs w \<and>
         (\<exists>rest. pipeline self (call_of self env prompt negative_prompt width height steps gs seed) =
            Inr (img # rest))"
proof (cases rule: generate_image_cases [where self=self and env=env and prompt=prompt and
        negative_prompt=negative_prompt and width=width and height=height and steps=steps and
        gs=gs and seed=seed and w=w])
  case (pipeline_raises e)
  from assms pipeline_raises(2) show ?thesis by simp
next
  case no_images
  from assms no_images(2) show ?thesis by simp
next
  case (outputs_is_file img' rest)
  from assms outputs_is_file(3) show ?thesis by simp
next
  case (path_is_dir img' rest)
  from assms path_is_dir(4) show ?thesis by simp
next
  case (returns img' rest)
  from assms returns(4) have eq: "img' = img"
    "i = info_of self env prompt negative_prompt width height steps gs seed"
    by simp_all
  from assms returns(4) have w': "dirs w' = insert (lit ''outputs'') (dirs w)"
    "files w' = (files w)(path_of self env seed \<mapsto> img)" "sleeps w' = sleeps w"
    by auto
  from eq w' returns(1,2,3) show ?thesis by blast
qed

section \<open>The generator: dimensions, seed and the call of the pipeline\<close>

lemma generate_image_calls:
  "calls (snd (generate_image self env prompt negative_prompt width height steps gs seed w)) =
   calls w @ [call_of self env prompt negative_prompt width height steps gs seed]"
  by (cases rule: generate_image_cases [where self=self and env=env and prompt=prompt and
        negative_prompt=negative_prompt and width=width and height=height and steps=steps and
        gs=gs and seed=seed and w=w])
     simp_all

lemma generate_image_succeeds:
  assumes "pipeline self (call_of self env prompt negative_prompt width height steps gs seed) =
           Inr (img # rest)"
    and "files w (lit ''outputs'') = None"
    and "path_of self env seed \<notin> dirs w"
  shows "\<exists>w'. generate_image self env prompt negative_prompt width height steps gs seed w =
           (Inr (img, info_of self env prompt negative_prompt width height steps gs seed), w')"
  using try_returns [OF assms, THEN generate_image_returns] by blast

lemma normalized_dim: "max 64 (min 1024 (d div 8 * 8)) = spec_clamp_dim (d::int)"
  unfolding spec_clamp_dim_def Let_def max_def min_def by auto

lemma spec_clamp_dim_range:
  "64 \<le> spec_clamp_dim d \<and> spec_clamp_dim d \<le> 1024 \<and> spec_clamp_dim d mod 8 = 0"
  unfolding spec_clamp_dim_def Let_def max_def min_def by auto

lemma example_run_succeeds:
  "\<exists>w'. generate_image example_generator example_readings prompt negative_prompt width height
           steps gs seed empty_world =
         (Inr (Image [1, 2, 3],
               info_of example_generator example_readings prompt negative_prompt width height
                 steps gs seed), w')"
  by (rule generate_image_succeeds [where rest="[]"])
     (simp_all add: example_generator_def empty_world_def)

text \<open>
  Claim C1. The width and the height that \<open>generate_image\<close> passes to the pipeline and
  records in the metadata are, each on its own, the given dimension clamped to the range
  from 64 to 1024 and then rounded down to a multiple of 8. The normalized value lies
  between 64 and 1024 and is divisible by 8, and 2000 and 10 become 1024 and 64.
\<close>

theorem generate_image_normalizes_dimensions:
  "(\<exists>c. calls (snd (generate_image self env prompt negative_prompt width height steps gs seed w)) =
          calls w @ [c] \<and>
        arg_width c = spec_clamp_dim width \<and> arg_height c = spec_clamp_dim height) \<and>
   (\<forall>img i w'.
      generate_image self env prompt negative_prompt width height steps gs seed w =
        (Inr (img, i), w') \<longrightarrow>
      info_width i = spec_clamp_dim width \<and> info_height i = spec_clamp_dim height) \<and>
   64 \<le> spec_clamp_dim width \<and> spec_clamp_dim width \<le> 1024 \<and> spec_clamp_dim width mod 8 = 0 \<and>
   64 \<le> spec_clamp_dim height \<and> spec_clamp_dim height \<le> 1024 \<and> spec_clamp_dim height mod 8 = 0 \<and>
   spec_clamp_dim 2000 = 1024 \<and> spec_clamp_dim 10 = 64"
proof -
  have call: "\<exists>c. calls (snd (generate_image self env prompt negative_prompt width height steps gs seed w)) =
          calls w @ [c] \<and>
        arg_width c = spec_clamp_dim width \<and> arg_height c = spec_clamp_dim height"
    by (simp add: generate_image_calls normalized_dim)
  have meta: "\<forall>img i w'.
      generate_image self env prompt negative_prompt width height steps gs seed w =
        (Inr (img, i), w') \<longrightarrow>
      info_width i = spec_clamp_dim width \<and> info_height i = spec_clamp_dim height"
  proof (intro allI impI)
    fix img i w'
    assume "generate_image self env prompt negative_prompt width height steps gs seed w =
        (Inr (img, i), w')"
    then have "i = info_of self env prompt negative_prompt width height steps gs seed"
      by (rule generate_image_Inr_D [THEN conjunct1])
    then show "info_width i = spec_clamp_dim width \<and> info_height i = spec_clamp_dim height"
      by (simp add: normalized_dim)
  qed
  have ex: "spec_clamp_dim 2000 = 1024 \<and> spec_clamp_dim 10 = 64"
    by (simp add: spec_clamp_dim_def)
  from call meta ex spec_clamp_dim_range [of width] spec_clamp_dim_range [of height]
  show ?thesis by blast
qed

theorem generate_image_normalizes_dimensions_witness:
  "\<exists>i w'. generate_image example_generator example_readings (lit ''a cat'') [] 2000 10 25
             (75 / 10) None empty_world = (Inr (Image [1, 2, 3], i), w') \<and>
          info_width i = 1024 \<and> info_height i = 64"
proof -
  obtain w' where run:
    "generate_image example_generator example_readings (lit ''a cat'') [] 2000 10 25
       (75 / 10) None empty_world =
     (Inr (Image [1, 2, 3],
           info_of example_generator example_readings (lit ''a cat'') [] 2000 10 25 (75 / 10) None),
      w')"
    using example_run_succeeds by blast
  from generate_image_normalizes_dimensions [of example_generator example_readings
      "lit ''a cat''" "[]" 2000 10 25 "75 / 10" None empty_world] run
  have "info_width (info_of example_generator example_readings (lit ''a cat'') [] 2000 10 25 (75 / 10) None) = 1024 \<and>
        info_height (info_of example_generator example_readings (lit ''a cat'') [] 2000 10 25 (75 / 10) None) = 64"
    by metis
  with run show ?thesis by blast
qed

lemma resolve_seed_None: "resolve_seed self env None = (None, uint (randint env))"
  by (simp add: resolve_seed_def)

lemma resolve_seed_Some: "resolve_seed self env (Some s) = (Some (Generator (device self) s), s)"
  by (simp add: resolve_seed_def)

lemma uint_randint_range: "0 \<le> uint (r :: 32 word) \<and> uint r < 2 ^ 32"
  using uint_lt2p [of r] by simp

text \<open>
  Claim C2. With a seed given, the generator passed to the pipeline is seeded with it and
  the metadata records it. With no seed given, the recorded seed is the drawn 32-bit
  value, between 0 and \<open>2 ^ 32\<close>, but the pipeline is called with no generator at all:
  the recorded seed is not the seed of the run. Submitting the recorded seed again makes
  a different call, with a generator seeded by it.
\<close>

theorem generate_image_absent_seed_leaves_generator_unseeded:
  "(\<exists>c. calls (snd (generate_image self env prompt negative_prompt width height steps gs None w)) =
          calls w @ [c] \<and> arg_generator c = None) \<and>
   (\<forall>img i w'.
      generate_image self env prompt negative_prompt width height steps gs None w =
        (Inr (img, i), w') \<longrightarrow>
      info_seed i = uint (randint env) \<and> 0 \<le> info_seed i \<and> info_seed i < 2 ^ 32) \<and>
   (\<exists>c. calls (snd (generate_image self env prompt negative_prompt width height steps gs (Some s) w)) =
          calls w @ [c] \<and> arg_generator c = Some (Generator (device self) s)) \<and>
   (\<forall>img i w'.
      generate_image self env prompt negative_prompt width height steps gs (Some s) w =
        (Inr (img, i), w') \<longrightarrow>
      info_seed i = s)"
proof -
  have a: "\<exists>c. calls (snd (generate_image self env prompt negative_prompt width height steps gs None w)) =
          calls w @ [c] \<and> arg_generator c = None"
    by (simp add: generate_image_calls resolve_seed_None)
  have b: "\<forall>img i w'.
      generate_image self env prompt negative_prompt width height steps gs None w =
        (Inr (img, i), w') \<longrightarrow>
      info_seed i = uint (randint env) \<and> 0 \<le> info_seed i \<and> info_seed i < 2 ^ 32"
  proof (intro allI impI)
    fix img i w'
    assume "generate_image self env prompt negative_prompt width height steps gs None w =
        (Inr (img, i), w')"
    then have "i = info_of self env prompt negative_prompt width height steps gs None"
      by (rule generate_image_Inr_D [THEN conjunct1])
    then have "info_seed i = uint (randint env)"
      by (simp add: resolve_seed_None)
    then show "info_seed i = uint (randint env) \<and> 0 \<le> info_seed i \<and> info_seed i < 2 ^ 32"
      using uint_randint_range [of "randint env"] by simp
  qed
  have c: "\<exists>c. calls (snd (generate_image self env prompt negative_prompt width height steps gs (Some s) w)) =
          calls w @ [c] \<and> arg_generator c = Some (Generator (device self) s)"
    by (simp add: generate_image_calls resolve_seed_Some)
  have d: "\<forall>img i w'.
      generate_image self env prompt negative_prompt width height steps gs (Some s) w =
        (Inr (img, i), w') \<longrightarrow>
      info_seed i = s"
  proof (intro allI impI)
    fix img i w'
    assume "generate_image self env prompt negative_prompt width height steps gs (Some s) w =
        (Inr (img, i), w')"
    then have "i = info_of self env prompt negative_prompt width height steps gs (Some s)"
      by (rule generate_image_Inr_D [THEN conjunct1])
    then show "info_seed i = s"
      by (simp add: resolve_seed_Some)
  qed
  from a b c d show ?thesis by blast
qed

theorem generate_image_absent_seed_leaves_generator_unseeded_witness:
  "(\<exists>i w'. generate_image example_generator example_readings (lit ''a cat'') [] 512 512 25
              (75 / 10) None empty_world = (Inr (Image [1, 2, 3], i), w') \<and>
           info_seed i = 7) \<and>
   map arg_generator
     (calls (snd (generate_image example_generator example_readings (lit ''a cat'') [] 512 512 25
                    (75 / 10) None empty_world))) = [None] \<and>
   map arg_generator
     (calls (snd (generate_image example_generator example_readings (lit ''a cat'') [] 512 512 25
                    (75 / 10) (Some 7) empty_world))) = [Some (Generator (lit ''cpu'') 7)]"
proof -
  note t = generate_image_absent_seed_leaves_generator_unseeded [of example_generator
      example_readings "lit ''a cat''" "[]" 512 512 25 "75 / 10" empty_world 7]
  obtain w' where run:
    "generate_image example_generator example_readings (lit ''a cat'') [] 512 512 25
       (75 / 10) None empty_world =
     (Inr (Image [1, 2, 3],
           info_of example_generator example_readings (lit ''a cat'') [] 512 512 25 (75 / 10) None),
      w')"
    using example_run_succeeds by blast
  with t have "info_seed (info_of example_generator example_readings (lit ''a cat'') [] 512 512 25 (75 / 10) None) =
      uint (randint example_readings)"
    by blast
  then have "info_seed (info_of example_generator example_readings (lit ''a cat'') [] 512 512 25 (75 / 10) None) = 7"
    by (simp add: example_readings_def)
  with run have a: "\<exists>i w'. generate_image example_generator example_readings (lit ''a cat'') [] 512 512 25
              (75 / 10) None empty_world = (Inr (Image [1, 2, 3], i), w') \<and> info_seed i = 7"
    by blast
  from t obtain c where "calls (snd (generate_image example_generator example_readings (lit ''a cat'') [] 512 512 25
                    (75 / 10) None empty_world)) = calls empty_world @ [c]" "arg_generator c = None"
    by blast
  then have b: "map arg_generator
     (calls (snd (generate_image example_generator example_readings (lit ''a cat'') [] 512 512 25
                    (75 / 10) None empty_world))) = [None]"
    by (simp add: empty_world_def)
  from t obtain c where "calls (snd (generate_image example_generator example_readings (lit ''a cat'') [] 512 512 25
                    (75 / 10) (Some 7) empty_world)) = calls empty_world @ [c]"
    "arg_generator c = Some (Generator (device example_generator) 7)"
    by blast
  then have c: "map arg_generator
     (calls (snd (generate_image example_generator example_readings (lit ''a cat'') [] 512 512 25
                    (75 / 10) (Some 7) empty_world))) = [Some (Generator (lit ''cpu'') 7)]"
    by (simp add: empty_world_def example_generator_def)
  from a b c show ?thesis by blast
qed

lemma or_None_eq: "or_None s = (if s = [] then None else Some s)"
  by (simp add: or_None_def)

lemma fst_resolve_seed:
  "fst (resolve_seed self env seed) =
     (case seed of None \<Rightarrow> None | Some s \<Rightarrow> Some (Generator (device self) s))"
  by (simp add: resolve_seed_def split: option.split)

text \<open>
  Claim C6. Every run of \<open>generate_image\<close> adds exactly one call of the pipeline, with
  the prompt, the negative prompt (\<open>None\<close> for the empty string), the normalized width
  and height, the steps and the guidance scale. The generator of the call is seeded with
  the seed when one is given, and is \<open>None\<close> when none is given, although a seed is
  then drawn and recorded.
\<close>

theorem generate_image_calls_pipeline_once:
  "calls (snd (generate_image self env prompt negative_prompt width height steps gs seed w)) =
   calls w @
     [\<lparr>arg_prompt = prompt,
       arg_negative_prompt = (if negative_prompt = [] then None else Some negative_prompt),
       arg_width = spec_clamp_dim width,
       arg_height = spec_clamp_dim height,
       arg_num_inference_steps = steps,
       arg_guidance_scale = gs,
       arg_generator = (case seed of None \<Rightarrow> None | Some s \<Rightarrow> Some (Generator (device self) s))\<rparr>]"
  by (simp only: generate_image_calls normalized_dim or_None_eq fst_resolve_seed)

theorem generate_image_calls_pipeline_once_witness:
  "calls (snd (generate_image example_generator example_readings (lit ''a cat'') [] 2000 10 25
                 (75 / 10) None empty_world)) =
     [\<lparr>arg_prompt = lit ''a cat'',
       arg_negative_prompt = None,
       arg_width = 1024,
       arg_height = 64,
       arg_num_inference_steps = 25,
       arg_guidance_scale = 75 / 10,
       arg_generator = None\<rparr>]"
  using generate_image_calls_pipeline_once [of example_generator example_readings "lit ''a cat''"
      "[]" 2000 10 25 "75 / 10" None empty_world]
  by (simp add: empty_world_def spec_clamp_dim_def)

section \<open>Persistence and timing\<close>











section \<open>The request handlers: failures and blank prompts\<close>

lemma strip_Nil: "strip [] = []"
  by (simp add: strip_def)

lemma generate_image_gradio_calls_generator:
  assumes "\<exists>c\<in>set prompt. \<not> isspace c"
  shows "generate_image_gradio str_lower generator env prompt negative_prompt style_preset width height
           steps use_enhancer w =
         (case generate_image generator env
                 (enhance_prompt str_lower (apply_style_preset prompt style_preset) use_enhancer)
                 negative_prompt width height steps (75 / 10) None w of
            (Inr (img, info), w) \<Rightarrow> (Some img, w)
          | (Inl e, w) \<Rightarrow> (None, w\<lparr>logged := logged w @ [error_record e]\<rparr>))"
proof -
  from assms have s: "strip prompt \<noteq> []" by (simp add: strip_empty_iff)
  then have "prompt \<noteq> []" using strip_Nil by auto
  with s show ?thesis by (simp add: generate_image_gradio_def Let_def)
qed

lemma generate_image_pipeline_raises:
  assumes "pipeline self (call_of self env prompt negative_prompt width height steps gs seed) = Inl e"
  shows "generate_image self env prompt negative_prompt width height steps gs seed w =
         (Inl e,
          w\<lparr>logged := logged w @
                [Info (0x1F3A8 # lit '' Generating image: '' @ [39] @ take 50 prompt @
                       lit ''...'' @ [39]),
                 error_record e],
            calls := calls w @
                [call_of self env prompt negative_prompt width height steps gs seed]\<rparr>)"
  using try_pipeline_raises [OF assms, THEN generate_image_raises, of w] by simp

text \<open>
  Claim C8. When the call of the pipeline raises, \<open>generate_image\<close> raises the same
  exception after logging it; the handler \<open>generate_image_gradio\<close> catches it, logs the
  message again and returns no image. The pipeline has been called once, and nothing but
  the log and the list of calls has changed: no file is written.
\<close>

theorem pipeline_failure_is_logged_and_yields_no_image:
  "(pipeline self (call_of self env prompt negative_prompt width height steps gs seed) = Inl e \<longrightarrow>
      generate_image self env prompt negative_prompt width height steps gs seed w =
        (Inl e,
         w\<lparr>logged := logged w @
               [Info (0x1F3A8 # lit '' Generating image: '' @ [39] @ take 50 prompt @
                      lit ''...'' @ [39]),
                error_record e],
           calls := calls w @
               [call_of self env prompt negative_prompt width height steps gs seed]\<rparr>)) \<and>
   ((\<exists>c\<in>set prompt. \<not> isspace c) \<and>
    pipeline self
      (call_of self env (enhance_prompt str_lower (apply_style_preset prompt style_preset) use_enhancer)
         negative_prompt width height steps (75 / 10) None) = Inl e \<longrightarrow>
      generate_image_gradio str_lower self env prompt negative_prompt style_preset width height steps
        use_enhancer w =
        (None,
         w\<lparr>logged := logged w @
               [Info (0x1F3A8 # lit '' Generating image: '' @ [39] @
                      take 50 (enhance_prompt str_lower (apply_style_preset prompt style_preset) use_enhancer) @
                      lit ''...'' @ [39]),
                error_record e,
                error_record e],
           calls := calls w @
               [call_of self env
                  (enhance_prompt str_lower (apply_style_preset prompt style_preset) use_enhancer)
                  negative_prompt width height steps (75 / 10) None]\<rparr>))"
proof (intro conjI impI)
  assume "pipeline self (call_of self env prompt negative_prompt width height steps gs seed) = Inl e"
  then show "generate_image self env prompt negative_prompt width height steps gs seed w =
        (Inl e,
         w\<lparr>logged := logged w @
               [Info (0x1F3A8 # lit '' Generating image: '' @ [39] @ take 50 prompt @
                      lit ''...'' @ [39]),
                error_record e],
           calls := calls w @
               [call_of self env prompt negative_prompt width height steps gs seed]\<rparr>)"
    by (rule generate_image_pipeline_raises)
next
  assume a: "(\<exists>c\<in>set prompt. \<not> isspace c) \<and>
    pipeline self
      (call_of self env (enhance_prompt str_lower (apply_style_preset prompt style_preset) use_enhancer)
         negative_prompt width height steps (75 / 10) None) = Inl e"
  then have p: "\<exists>c\<in>set prompt. \<not> isspace c" by blast
  from a have "pipeline self
      (call_of self env (enhance_prompt str_lower (apply_style_preset prompt style_preset) use_enhancer)
         negative_prompt width height steps (75 / 10) None) = Inl e" by blast
  note g = generate_image_pipeline_raises [OF this, of w]
  show "generate_image_gradio str_lower self env prompt negative_prompt style_preset width height steps
        use_enhancer w =
        (None,
         w\<lparr>logged := logged w @
               [Info (0x1F3A8 # lit '' Generating image: '' @ [39] @
                      take 50 (enhance_prompt str_lower (apply_style_preset prompt style_preset) use_enhancer) @
                      lit ''...'' @ [39]),
                error_record e,
                error_record e],
           calls := calls w @
               [call_of self env
                  (enhance_prompt str_lower (apply_style_preset prompt style_preset) use_enhancer)
                  negative_prompt width height steps (75 / 10) None]\<rparr>)"
    unfolding generate_image_gradio_calls_generator [OF p] g by simp
qed

theorem pipeline_failure_is_logged_and_yields_no_image_witness:
  "fst (generate_image failing_generator example_readings (lit ''a cat'') [] 512 512 25 (75 / 10)
          None empty_world) = Inl (PipelineError (lit ''out of memory'')) \<and>
   generate_image_gradio ascii_lower failing_generator example_readings (lit ''a cat'') [] (lit ''None'')
     512 512 25 False empty_world =
     (None,
      \<lparr>logged =
         [Info (0x1F3A8 # lit '' Generating image: '' @ [39] @ lit ''a cat'' @ lit ''...'' @ [39]),
          Error (0x274C # lit '' Error generating image: out of memory''),
          Error (0x274C # lit '' Error generating image: out of memory'')],
       calls =
         [\<lparr>arg_prompt = lit ''a cat'',
           arg_negative_prompt = None,
           arg_width = 512,
           arg_height = 512,
           arg_num_inference_steps = 25,
           arg_guidance_scale = 75 / 10,
           arg_generator = None\<rparr>],
       dirs = {},
       files = Map.empty,
       sleeps = []\<rparr>)"
proof -
  have f: "\<And>c. pipeline failing_generator c = Inl (PipelineError (lit ''out of memory''))"
    by (simp add: failing_generator_def)
  have p: "\<exists>c\<in>set (lit ''a cat''). \<not> isspace c"
    by (simp add: isspace_def lit_simps)
  have e: "enhance_prompt ascii_lower (apply_style_preset (lit ''a cat'') (lit ''None'')) False = lit ''a cat''"
    by (simp add: enhance_prompt_def apply_style_preset_def)
  note t = pipeline_failure_is_logged_and_yields_no_image [where self=failing_generator and
      env=example_readings and prompt="lit ''a cat''" and negative_prompt="[]" and width=512 and
      height=512 and steps=25 and gs="75 / 10" and seed=None and
      e="PipelineError (lit ''out of memory'')" and w=empty_world and
      style_preset="lit ''None''" and use_enhancer=False and str_lower=ascii_lower]
  from t f have a: "fst (generate_image failing_generator example_readings (lit ''a cat'') [] 512 512 25 (75 / 10)
          None empty_world) = Inl (PipelineError (lit ''out of memory''))"
    by simp
  from t f p have "generate_image_gradio ascii_lower failing_generator example_readings (lit ''a cat'') []
      (lit ''None'') 512 512 25 False empty_world =
        (None,
         empty_world\<lparr>logged := logged empty_world @
               [Info (0x1F3A8 # lit '' Generating image: '' @ [39] @
                      take 50 (enhance_prompt ascii_lower (apply_style_preset (lit ''a cat'') (lit ''None'')) False) @
                      lit ''...'' @ [39]),
                error_record (PipelineError (lit ''out of memory'')),
                error_record (PipelineError (lit ''out of memory''))],
           calls := calls empty_world @
               [call_of failing_generator example_readings
                  (enhance_prompt ascii_lower (apply_style_preset (lit ''a cat'') (lit ''None'')) False)
                  [] 512 512 25 (75 / 10) None]\<rparr>)"
    by blast
  then have b: "generate_image_gradio ascii_lower failing_generator example_readings (lit ''a cat'') []
      (lit ''None'') 512 512 25 False empty_world =
     (None,
      \<lparr>logged =
         [Info (0x1F3A8 # lit '' Generating image: '' @ [39] @ lit ''a cat'' @ lit ''...'' @ [39]),
          Error (0x274C # lit '' Error generating image: out of memory''),
          Error (0x274C # lit '' Error generating image: out of memory'')],
       calls =
         [\<lparr>arg_prompt = lit ''a cat'',
           arg_negative_prompt = None,
           arg_width = 512,
           arg_height = 512,
           arg_num_inference_steps = 25,
           arg_guidance_scale = 75 / 10,
           arg_generator = None\<rparr>],
       dirs = {},
       files = Map.empty,
       sleeps = []\<rparr>)"
    unfolding e by (simp add: empty_world_def or_None_def resolve_seed_def lit_simps)
  from a b show ?thesis by blast
qed

text \<open>
  Claim C5. For an empty or whitespace-only prompt both handlers return no image and
  leave the world as it is: no call of the pipeline, no log record, no file, no
  exception.
\<close>

theorem blank_prompt_short_circuits:
  "(\<forall>c\<in>set prompt. isspace c) \<longrightarrow>
     generate_image_gradio str_lower generator env prompt negative_prompt style_preset width height steps
       use_enhancer w = (None, w) \<and>
     vercel_generate_image_gradio prompt negative_prompt style_preset width height steps
       use_enhancer w = (None, w)"
  by (simp add: generate_image_gradio_def vercel_generate_image_gradio_def strip_empty_iff)

theorem blank_prompt_short_circuits_witness:
  "generate_image_gradio ascii_lower example_generator example_readings [] [] (lit ''None'') 512 512 25 True
     empty_world = (None, empty_world) \<and>
   vercel_generate_image_gradio (lit ''   '') [] (lit ''None'') 512 512 25 True empty_world =
     (None, empty_world)"
proof -
  have a: "\<forall>c\<in>set []. isspace c" by simp
  have b: "\<forall>c\<in>set (lit ''   ''). isspace c" by (simp add: isspace_def lit_simps)
  from a blank_prompt_short_circuits [where prompt="[]" and str_lower=ascii_lower and
      generator=example_generator and env=example_readings and negative_prompt="[]" and
      style_preset="lit ''None''" and width=512 and height=512 and steps=25 and
      use_enhancer=True and w=empty_world]
    b blank_prompt_short_circuits [where prompt="lit ''   ''" and str_lower=ascii_lower and
      generator=example_generator and env=example_readings and negative_prompt="[]" and
      style_preset="lit ''None''" and width=512 and height=512 and steps=25 and
      use_enhancer=True and w=empty_world]
  show ?thesis by blast
qed

section \<open>The demo variant\<close>

lemma contains_set: "contains m sub \<Longrightarrow> set sub \<subseteq> set m"
  by (auto simp: contains_iff)

lemma contains_prefix: "contains m a \<Longrightarrow> prefix b a \<Longrightarrow> contains m b"
  unfolding contains_iff prefix_def by (metis append.assoc)

lemma demo_message_contains_head: "contains (demo_message p width height steps style) (take 100 p)"
proof -
  have "\<exists>u x. demo_message p width height steps style = u @ take 100 p @ x"
    unfolding demo_message_def
    by (rule exI [of _ "[10, 0x1F3A8] @ lit '' DreamForge Studio - Web Demo'' @
          [10, 10, 0x1F4DD] @ lit '' Your prompt: '' @ [34]"]) (simp only: append_assoc, blast)
  then show ?thesis by (simp only: contains_iff)
qed

lemma take_prefix_short: "prefix q p \<Longrightarrow> length q \<le> n \<Longrightarrow> prefix q (take n p)"
  by (auto simp: prefix_def)

lemma vercel_handler_returns_message:
  assumes "\<exists>c\<in>set prompt. \<not> isspace c"
  shows "vercel_generate_image_gradio prompt negative_prompt style_preset width height steps
           use_enhancer w =
         (Some (demo_message (vercel_apply_style_preset prompt style_preset) width height steps
                  style_preset), w)"
proof -
  from assms have s: "strip prompt \<noteq> []" by (simp add: strip_empty_iff)
  then have "prompt \<noteq> []" using strip_Nil by auto
  with s show ?thesis by (simp add: vercel_generate_image_gradio_def Let_def)
qed

text \<open>
  Claim C7, as the code has it. For a prompt that is not empty or whitespace-only the
  handler of the demo variant returns a status text and no image, and leaves the world
  as it is: no file is touched and nothing is slept, since the handler never calls
  \<open>DemoImageGenerator_generate_image\<close>. The text echoes the first 100 characters of the
  prompt with the style suffix appended, hence the whole original prompt when it has at
  most 100 characters. \<open>DemoImageGenerator_generate_image\<close> itself sleeps two seconds,
  returns no image, echoes its prompt in the metadata and touches no file.
\<close>

theorem demo_handler_echoes_prompt_head:
  "((\<exists>c\<in>set prompt. \<not> isspace c) \<longrightarrow>
      vercel_generate_image_gradio prompt negative_prompt style_preset width height steps
        use_enhancer w =
        (Some (demo_message (vercel_apply_style_preset prompt style_preset) width height steps
                 style_preset), w) \<and>
      contains
        (demo_message (vercel_apply_style_preset prompt style_preset) width height steps
           style_preset)
        (take 100 (vercel_apply_style_preset prompt style_preset)) \<and>
      (length prompt \<le> 100 \<longrightarrow>
         contains
           (demo_message (vercel_apply_style_preset prompt style_preset) width height steps
              style_preset)
           prompt)) \<and>
   fst (fst (DemoImageGenerator_generate_image prompt w)) = None \<and>
   demo_prompt (snd (fst (DemoImageGenerator_generate_image prompt w))) = prompt \<and>
   sleeps (snd (DemoImageGenerator_generate_image prompt w)) = sleeps w @ [2] \<and>
   files (snd (DemoImageGenerator_generate_image prompt w)) = files w \<and>
   dirs (snd (DemoImageGenerator_generate_image prompt w)) = dirs w"
proof -
  let ?p = "vercel_apply_style_preset prompt style_preset"
  let ?m = "demo_message ?p width height steps style_preset"
  have head: "contains ?m (take 100 ?p)" by (rule demo_message_contains_head)
  have short: "length prompt \<le> 100 \<longrightarrow> contains ?m prompt"
  proof
    assume "length prompt \<le> 100"
    then have "prefix prompt (take 100 ?p)"
      using prefix_vercel_apply_style_preset by (rule take_prefix_short [rotated])
    with head show "contains ?m prompt" by (rule contains_prefix)
  qed
  have demo: "fst (fst (DemoImageGenerator_generate_image prompt w)) = None \<and>
   demo_prompt (snd (fst (DemoImageGenerator_generate_image prompt w))) = prompt \<and>
   sleeps (snd (DemoImageGenerator_generate_image prompt w)) = sleeps w @ [2] \<and>
   files (snd (DemoImageGenerator_generate_image prompt w)) = files w \<and>
   dirs (snd (DemoImageGenerator_generate_image prompt w)) = dirs w"
    by (simp add: DemoImageGenerator_generate_image_def Let_def)
  from head short demo vercel_handler_returns_message [of prompt negative_prompt style_preset
      width height steps use_enhancer w]
  show ?thesis by blast
qed

theorem demo_handler_echoes_prompt_head_witness:
  "vercel_generate_image_gradio (lit ''a cat'') [] (0x1F4F8 # lit '' Photorealistic'') 512 512 25
     True empty_world =
     (Some (demo_message (lit ''a cat, photorealistic, realistic, detailed, high quality'')
              512 512 25 (0x1F4F8 # lit '' Photorealistic'')), empty_world) \<and>
   contains
     (demo_message (lit ''a cat, photorealistic, realistic, detailed, high quality'')
        512 512 25 (0x1F4F8 # lit '' Photorealistic''))
     (lit ''a cat'')"
proof -
  have p: "\<exists>c\<in>set (lit ''a cat''). \<not> isspace c"
    by (simp add: isspace_def lit_simps)
  have l: "length (lit ''a cat'') \<le> 100" by (simp add: lit_simps)
  have a: "vercel_apply_style_preset (lit ''a cat'') (0x1F4F8 # lit '' Photorealistic'') =
      lit ''a cat, photorealistic, realistic, detailed, high quality''"
    by (simp add: vercel_apply_style_preset_eq apply_style_preset_key [OF photorealistic_suffix])
       (simp add: lit_simps)
  from p l demo_handler_echoes_prompt_head [of "lit ''a cat''" "[]"
      "0x1F4F8 # lit '' Photorealistic''" 512 512 25 True empty_world]
  show ?thesis unfolding a by blast
qed

lemma long_prompt_not_blank: "\<exists>c\<in>set (replicate 100 97 @ [90]). \<not> isspace c"
  by (simp add: isspace_def)

lemma long_prompt_result:
  "vercel_generate_image_gradio (replicate 100 97 @ [90]) [] (lit ''None'') 512 512 25 True
     empty_world =
   (Some (demo_message (replicate 100 97 @ [90]) 512 512 25 (lit ''None'')), empty_world)"
  using vercel_handler_returns_message [OF long_prompt_not_blank]
  by (simp add: vercel_apply_style_preset_def)

lemma Z_not_in_message:
  "90 \<notin> set (demo_message (replicate 100 97 @ [90]) 512 512 25 (lit ''None''))"
  by (simp add: demo_message_def str_int_def digits.simps lit_simps)

text \<open>
  Claim C7, as it is stated, fails: the text returned for a prompt of 101 characters (a
  hundred times "a", then "Z") does not contain that prompt, no delay has been slept
  when the handler returns, and for the non-empty prompt " " nothing is returned.
\<close>

theorem demo_handler_echo_counterexample:
  "\<not> contains
       (the (fst (vercel_generate_image_gradio (replicate 100 97 @ [90]) [] (lit ''None'')
                    512 512 25 True empty_world)))
       (replicate 100 97 @ [90]) \<and>
   sleeps (snd (vercel_generate_image_gradio (replicate 100 97 @ [90]) [] (lit ''None'')
                  512 512 25 True empty_world)) = [] \<and>
   fst (vercel_generate_image_gradio (lit '' '') [] (lit ''None'') 512 512 25 True empty_world) =
     None"
proof -
  have a: "\<not> contains (demo_message (replicate 100 97 @ [90]) 512 512 25 (lit ''None''))
             (replicate 100 97 @ [90])"
  proof
    assume "contains (demo_message (replicate 100 97 @ [90]) 512 512 25 (lit ''None''))
             (replicate 100 97 @ [90])"
    then have "set (replicate 100 97 @ [90]) \<subseteq>
               set (demo_message (replicate 100 97 @ [90]) 512 512 25 (lit ''None''))"
      by (rule contains_set)
    then have "90 \<in> set (demo_message (replicate 100 97 @ [90]) 512 512 25 (lit ''None''))"
      by auto
    with Z_not_in_message show False by blast
  qed
  have b: "sleeps empty_world = []" by (simp add: empty_world_def)
  have c: "fst (vercel_generate_image_gradio (lit '' '') [] (lit ''None'') 512 512 25 True
                  empty_world) = None"
    by (simp add: vercel_generate_image_gradio_def strip_def isspace_def lit_simps)
  from a b c show ?thesis by (simp add: long_prompt_result)
qed

end
